theory Spec2Isabelle
  imports Complex_Main "HOL-Library.Sublist"
begin

section \<open>Values and strings of the server\<close>

text \<open>
  The generic table gateway of \<^verbatim>\<open>server.js\<close> (the version with relation expansion)
  works on JavaScript values: query-string values, JSON bodies and database rows.
  An object lists its properties in the order of \<^verbatim>\<open>Object.keys\<close>; the keys of an
  object are distinct. A character of a \<^typ>\<open>string\<close> is a UTF-16 code unit below 256.
\<close>

datatype jsval =
    JUndefined
  | JNull
  | JBool bool
  | JNum rat
  | JStr string
  | JArr "jsval list"
  | JObj "(string \<times> jsval) list"

text \<open>What the handlers' \<^verbatim>\<open>try\<close> blocks catch: a \<^verbatim>\<open>TypeError\<close> of the runtime, or the
  rejection of \<^verbatim>\<open>pool.query\<close> with the database's message.\<close>

datatype exn = TypeError | DbFailure string

text \<open>The regular-expression classes \<^verbatim>\<open>\w\<close> and \<^verbatim>\<open>\s\<close>, and the line terminators
  that \<^verbatim>\<open>.\<close> does not match.\<close>

definition word_char :: "char \<Rightarrow> bool" where
  "word_char c = (let n = (of_char c :: nat) in
     (48 \<le> n \<and> n \<le> 57) \<or> (65 \<le> n \<and> n \<le> 90) \<or> n = 95 \<or> (97 \<le> n \<and> n \<le> 122))"

definition white_space :: "char \<Rightarrow> bool" where
  "white_space c = (let n = (of_char c :: nat) in (9 \<le> n \<and> n \<le> 13) \<or> n = 32 \<or> n = 160)"

definition line_terminator :: "char \<Rightarrow> bool" where
  "line_terminator c = (let n = (of_char c :: nat) in n = 10 \<or> n = 13)"

text \<open>\<^verbatim>\<open>String.prototype.trim\<close>, \<^verbatim>\<open>split\<close> on one character, and \<^verbatim>\<open>Array.prototype.join\<close>.\<close>

definition trim :: "string \<Rightarrow> string" where
  "trim s = rev (dropWhile white_space (rev (dropWhile white_space s)))"

fun str_split :: "char \<Rightarrow> string \<Rightarrow> string list" where
  "str_split sep [] = [[]]"
| "str_split sep (c # cs) =
     (if c = sep then [] # str_split sep cs
      else (case str_split sep cs of
              [] \<Rightarrow> [[c]]
            | p # ps \<Rightarrow> (c # p) # ps))"

fun str_join :: "string \<Rightarrow> string list \<Rightarrow> string" where
  "str_join sep [] = []"
| "str_join sep [x] = x"
| "str_join sep (x # y # ys) = x @ sep @ str_join sep (y # ys)"

text \<open>A number inside a template literal: its decimal digits.\<close>

definition digit_char :: "nat \<Rightarrow> char" where
  "digit_char n = ''0123456789'' ! (n mod 10)"

function string_of_nat :: "nat \<Rightarrow> string" where
  "string_of_nat n =
     (if n < 10 then [digit_char n] else string_of_nat (n div 10) @ [digit_char n])"
  by pat_completeness auto
termination
  by (relation "measure id") auto

declare string_of_nat.simps [simp del]

section \<open>The filter parser\<close>

text \<open>
  \<^verbatim>\<open>
  const parseFilter = (raw) => {
    if (typeof raw !== 'string') return { op: 'eq', value: raw };
    const m = raw.match(/^(\w+)\.(.*)$/);
    if (m) return { op: m[1], value: m[2] };
    return { op: 'eq', value: raw };
  };
  \<close>
  The greedy \<^verbatim>\<open>\w+\<close> takes the longest run of word characters; the match succeeds when
  that run is not empty, a dot follows it, and the rest of the string has no line
  terminator.
\<close>

definition parseFilter :: "jsval \<Rightarrow> string \<times> jsval" where
  "parseFilter raw =
     (case raw of
        JStr s \<Rightarrow>
          (case dropWhile word_char s of
             [] \<Rightarrow> (''eq'', raw)
           | c # v \<Rightarrow>
               if takeWhile word_char s \<noteq> [] \<and> c = CHR ''.'' \<and> \<not> list_ex line_terminator v
               then (takeWhile word_char s, JStr v)
               else (''eq'', raw))
      | _ \<Rightarrow> (''eq'', raw))"

definition recognized_operators :: "string list" where
  "recognized_operators = [''eq'', ''neq'', ''gte'', ''lte'', ''is'', ''not'']"

section \<open>The select parser\<close>

text \<open>
  \<^verbatim>\<open>
  const relationships = {
    products: {
      categories: { foreignKey: 'category_id', targetTable: 'categories' },
      suppliers: { foreignKey: 'supplier_id', targetTable: 'suppliers' },
    },
    stock_movements: {
      products: { foreignKey: 'product_id', targetTable: 'products' },
      profiles: { foreignKey: 'user_id', targetTable: 'profiles' },
    },
    audit_logs: {
      profiles: { foreignKey: 'user_id', targetTable: 'profiles' },
    },
  };
  \<close>
\<close>

definition relationships :: "(string \<times> (string \<times> string \<times> string) list) list" where
  "relationships =
     [(''products'',
         [(''categories'', ''category_id'', ''categories''),
          (''suppliers'', ''supplier_id'', ''suppliers'')]),
      (''stock_movements'',
         [(''products'', ''product_id'', ''products''),
          (''profiles'', ''user_id'', ''profiles'')]),
      (''audit_logs'',
         [(''profiles'', ''user_id'', ''profiles'')])]"

text \<open>
  \<^verbatim>\<open>relationships[table] && relationships[table][relationName]\<close> reads properties of
  plain objects, so a name that the object literal does not declare is looked up in
  \<^verbatim>\<open>Object.prototype\<close>. Each of its members is a truthy value without enumerable
  properties of its own. When the table segment itself names such a member, the second
  lookup reads a property of that built-in value; what the runtime holds there is not
  part of the repository and is taken as the parameter \<open>builtin\<close>: the property is
  falsy, or truthy (a value of the runtime, which has no enumerable \<^verbatim>\<open>foreignKey\<close> or
  \<^verbatim>\<open>targetTable\<close>), or reading it throws.
\<close>

definition object_prototype_names :: "string list" where
  "object_prototype_names =
     [''constructor'', ''__proto__'', ''hasOwnProperty'', ''isPrototypeOf'',
      ''propertyIsEnumerable'', ''toLocaleString'', ''toString'', ''valueOf'',
      ''__defineGetter__'', ''__defineSetter__'', ''__lookupGetter__'', ''__lookupSetter__'']"

datatype jsprop = Falsy | Truthy | Throws

type_synonym builtins = "string \<Rightarrow> string \<Rightarrow> jsprop"

datatype lookup = Absent | Declared string string | Inherited

definition lookup_relationship :: "builtins \<Rightarrow> string \<Rightarrow> string \<Rightarrow> exn + lookup" where
  "lookup_relationship builtin table relationName =
     (case map_of relationships table of
        Some rels \<Rightarrow>
          (case map_of rels relationName of
             Some (fk, target) \<Rightarrow> Inr (Declared fk target)
           | None \<Rightarrow>
               if relationName \<in> set object_prototype_names then Inr Inherited else Inr Absent)
      | None \<Rightarrow>
          if table \<in> set object_prototype_names
          then (case builtin table relationName of
                  Falsy \<Rightarrow> Inr Absent
                | Truthy \<Rightarrow> Inr Inherited
                | Throws \<Rightarrow> Inl TypeError)
          else Inr Absent)"

text \<open>A relation request \<^verbatim>\<open>{ name, columns, ...relationships[table][relationName] }\<close>;
  the spread of an inherited value adds neither \<^verbatim>\<open>foreignKey\<close> nor \<^verbatim>\<open>targetTable\<close>,
  which then read as \<^verbatim>\<open>undefined\<close>.\<close>

record relation =
  rel_name :: string
  rel_columns :: "string list"
  foreignKey :: "string option"
  targetTable :: "string option"

text \<open>\<^verbatim>\<open>selectStr.replace(/\s+/g, ' ')\<close>: every run of white space becomes one space.\<close>

function collapse_spaces :: "string \<Rightarrow> string" where
  "collapse_spaces [] = []"
| "collapse_spaces (c # cs) =
     (if white_space c then CHR '' '' # collapse_spaces (dropWhile white_space cs)
      else c # collapse_spaces cs)"
  by pat_completeness auto
termination
  by (relation "measure length") (auto simp: length_dropWhile_le less_Suc_eq_le)

text \<open>
  One match of \<^verbatim>\<open>/(\w+)\s*\(([^)]+)\)/\<close> anchored at the head of the string: the longest
  run of word characters (not empty), the white space after it, an opening parenthesis,
  the characters up to the next closing parenthesis (at least one), and that closing
  parenthesis. The result is \<^verbatim>\<open>match[0]\<close>, \<^verbatim>\<open>match[1]\<close>, \<^verbatim>\<open>match[2]\<close> and the text after
  the match.
\<close>

type_synonym relation_match = "string \<times> string \<times> string"

definition match_here :: "string \<Rightarrow> (relation_match \<times> string) option" where
  "match_here s =
     (let relationName = takeWhile word_char s;
          r1 = dropWhile word_char s;
          gap = takeWhile white_space r1;
          r2 = dropWhile white_space r1
      in if relationName = [] then None
         else (case r2 of
                 [] \<Rightarrow> None
               | c # r3 \<Rightarrow>
                   if c \<noteq> CHR ''('' then None
                   else (let inner = takeWhile (\<lambda>x. x \<noteq> CHR '')'') r3;
                             r4 = dropWhile (\<lambda>x. x \<noteq> CHR '')'') r3
                         in if inner = [] then None
                            else (case r4 of
                                    [] \<Rightarrow> None
                                  | _ # rest \<Rightarrow>
                                      Some ((relationName @ gap @ ''('' @ inner @ '')'',
                                             relationName, inner), rest)))))"

text \<open>\<^verbatim>\<open>relationRegex.exec(cleaned)\<close> from \<^verbatim>\<open>lastIndex\<close>: the leftmost match in the text
  not yet scanned.\<close>

fun exec_from :: "string \<Rightarrow> (relation_match \<times> string) option" where
  "exec_from [] = None"
| "exec_from (c # cs) =
     (case match_here (c # cs) of
        Some m \<Rightarrow> Some m
      | None \<Rightarrow> exec_from cs)"

lemma match_here_shorter: "match_here s = Some (m, rest) \<Longrightarrow> length rest < length s"
proof -
  assume a: "match_here s = Some (m, rest)"
  let ?r1 = "dropWhile word_char s"
  let ?r2 = "dropWhile white_space ?r1"
  from a obtain r3 where r2: "?r2 = CHR ''('' # r3"
    by (auto simp: match_here_def Let_def split: if_splits list.splits)
  from a r2 have r4: "dropWhile (\<lambda>x. x \<noteq> CHR '')'') r3 = hd (dropWhile (\<lambda>x. x \<noteq> CHR '')'') r3) # rest"
    by (auto simp: match_here_def Let_def split: if_splits list.splits)
  have "length rest < length (dropWhile (\<lambda>x. x \<noteq> CHR '')'') r3)"
    by (subst r4) simp
  also have "\<dots> \<le> length r3"
    by (rule length_dropWhile_le)
  also have "\<dots> < length ?r2"
    by (simp add: r2)
  also have "\<dots> \<le> length ?r1"
    by (rule length_dropWhile_le)
  also have "\<dots> \<le> length s"
    by (rule length_dropWhile_le)
  finally show ?thesis .
qed

lemma exec_from_shorter: "exec_from s = Some (m, rest) \<Longrightarrow> length rest < length s"
proof (induction s)
  case Nil
  then show ?case by simp
next
  case (Cons c cs)
  show ?case
  proof (cases "match_here (c # cs)")
    case None
    with Cons show ?thesis by auto
  next
    case (Some a)
    with Cons.prems have "match_here (c # cs) = Some (m, rest)" by simp
    then show ?thesis by (rule match_here_shorter)
  qed
qed

text \<open>The successive matches of the \<^verbatim>\<open>while ((match = relationRegex.exec(cleaned)) !== null)\<close>
  loop. The loop body does not write to \<^verbatim>\<open>cleaned\<close> or to the regular expression.\<close>

function relation_matches :: "string \<Rightarrow> relation_match list" where
  "relation_matches s =
     (case exec_from s of
        None \<Rightarrow> []
      | Some (m, rest) \<Rightarrow> m # relation_matches rest)"
  by pat_completeness auto
termination
  by (relation "measure length") (auto dest: exec_from_shorter)

declare relation_matches.simps [simp del]

text \<open>\<^verbatim>\<open>tempStr.replace(match[0], '')\<close> with a string pattern: the first occurrence of the
  pattern is removed.\<close>

fun replace_first :: "string \<Rightarrow> string \<Rightarrow> string" where
  "replace_first pat [] = []"
| "replace_first pat (c # cs) =
     (if prefix pat (c # cs) then drop (length pat) (c # cs) else c # replace_first pat cs)"

text \<open>The body of the loop, run on each match in turn with the state
  \<^verbatim>\<open>(relations, tempStr)\<close>.\<close>

fun relation_loop ::
  "builtins \<Rightarrow> string \<Rightarrow> relation_match list \<Rightarrow> relation list \<times> string
     \<Rightarrow> exn + relation list \<times> string" where
  "relation_loop builtin table [] st = Inr st"
| "relation_loop builtin table ((m0, relationName, m2) # ms) (relations, tempStr) =
     (case lookup_relationship builtin table relationName of
        Inl e \<Rightarrow> Inl e
      | Inr found \<Rightarrow>
          relation_loop builtin table ms
            ((case found of
                Absent \<Rightarrow> relations
              | Declared fk target \<Rightarrow>
                  relations @
                    [\<lparr>rel_name = relationName,
                      rel_columns = map trim (str_split CHR '','' m2),
                      foreignKey = Some fk, targetTable = Some target\<rparr>]
              | Inherited \<Rightarrow>
                  relations @
                    [\<lparr>rel_name = relationName,
                      rel_columns = map trim (str_split CHR '','' m2),
                      foreignKey = None, targetTable = None\<rparr>]),
             replace_first m0 tempStr))"

text \<open>\<^verbatim>\<open>replace(/,\s*,/g, ',')\<close> and \<^verbatim>\<open>replace(/^,|,$/g, '')\<close>.\<close>

function collapse_commas :: "string \<Rightarrow> string" where
  "collapse_commas [] = []"
| "collapse_commas (c # cs) =
     (if c = CHR '','' then
        (case dropWhile white_space cs of
           [] \<Rightarrow> c # collapse_commas cs
         | d # ds \<Rightarrow>
             if d = CHR '','' then CHR '','' # collapse_commas ds
             else c # collapse_commas cs)
      else c # collapse_commas cs)"
  by pat_completeness auto
termination
proof (relation "measure length")
  fix c :: char and cs :: string and d :: char and ds :: string
  assume "dropWhile white_space cs = d # ds"
  then have "length (d # ds) \<le> length cs"
    by (metis length_dropWhile_le)
  then show "(ds, c # cs) \<in> measure length"
    by simp
qed auto

definition strip_edge_commas :: "string \<Rightarrow> string" where
  "strip_edge_commas s =
     (let s1 = (case s of [] \<Rightarrow> [] | c # cs \<Rightarrow> if c = CHR '','' then cs else s)
      in if s1 \<noteq> [] \<and> last s1 = CHR '','' then butlast s1 else s1)"

definition main_columns :: "string \<Rightarrow> string list" where
  "main_columns tempStr =
     (let mainColsStr = trim (strip_edge_commas (collapse_commas tempStr))
      in if mainColsStr = [] then []
         else filter (\<lambda>trimmed. trimmed \<noteq> []) (map trim (str_split CHR '','' mainColsStr)))"

text \<open>\<^verbatim>\<open>parseSupabaseSelect(selectStr, table)\<close>. A select value that is not a string (a
  repeated \<^verbatim>\<open>select\<close> key gives an array) has no \<^verbatim>\<open>replace\<close> method, and the call
  throws.\<close>

definition parseSupabaseSelect ::
  "builtins \<Rightarrow> jsval \<Rightarrow> string \<Rightarrow> exn + string list \<times> relation list" where
  "parseSupabaseSelect builtin selectStr table =
     (case selectStr of
        JStr s \<Rightarrow>
          (let cleaned = trim (collapse_spaces s)
           in case relation_loop builtin table (relation_matches cleaned) ([], cleaned) of
                Inl e \<Rightarrow> Inl e
              | Inr (relations, tempStr) \<Rightarrow> Inr (main_columns tempStr, relations))
      | _ \<Rightarrow> Inl TypeError)"

section \<open>The database and the responses\<close>

text \<open>
  \<^verbatim>\<open>pool.query(q, params)\<close> is the database driver, a parameter of the model: from the
  database's state, a statement and its parameters it gives the rows of the result, or
  rejects with a message, and the next state. A handler returns its response, the calls
  it made to \<^verbatim>\<open>pool.query\<close> in order, each with its result, and the state the
  database is left in.
\<close>

datatype db_result = Rejected string | Rows "jsval list"

type_synonym 'd pool = "'d \<Rightarrow> string \<Rightarrow> jsval list \<Rightarrow> db_result \<times> 'd"

type_synonym call = "string \<times> jsval list \<times> db_result"

text \<open>\<^verbatim>\<open>res.json(v)\<close> is \<open>Response 200 (Data v)\<close>; \<^verbatim>\<open>res.status(n).json({ error: '...' })\<close>
  is \<open>Response n (ErrorMessage ...)\<close>; the \<^verbatim>\<open>catch\<close> block's
  \<^verbatim>\<open>res.status(500).json({ error: String(error) })\<close> is \<open>Response 500 (ErrorOf error)\<close>.\<close>

datatype payload = Data jsval | ErrorMessage string | ErrorOf exn

datatype response = Response nat payload

fun status :: "response \<Rightarrow> nat" where
  "status (Response n p) = n"

definition statement :: "call \<Rightarrow> string" where
  "statement c = fst c"

definition parameters :: "call \<Rightarrow> jsval list" where
  "parameters c = fst (snd c)"

definition result :: "call \<Rightarrow> db_result" where
  "result c = snd (snd c)"

definition succeeded :: "call \<Rightarrow> bool" where
  "succeeded c = (case result c of Rows rs \<Rightarrow> True | Rejected msg \<Rightarrow> False)"

text \<open>\<^verbatim>\<open>const r = await pool.query(q, params); res.json(r.rows);\<close> inside \<^verbatim>\<open>try\<close>.\<close>

definition respond_rows :: "'d pool \<Rightarrow> 'd \<Rightarrow> string \<Rightarrow> jsval list \<Rightarrow> response \<times> call list \<times> 'd" where
  "respond_rows pool d q ps =
     (case pool d q ps of
        (Rejected msg, d') \<Rightarrow> (Response 500 (ErrorOf (DbFailure msg)), [(q, ps, Rejected msg)], d')
      | (Rows rows, d') \<Rightarrow> (Response 200 (Data (JArr rows)), [(q, ps, Rows rows)], d'))"

definition truthy :: "jsval \<Rightarrow> bool" where
  "truthy v =
     (case v of
        JUndefined \<Rightarrow> False
      | JNull \<Rightarrow> False
      | JBool b \<Rightarrow> b
      | JNum n \<Rightarrow> n \<noteq> 0
      | JStr s \<Rightarrow> s \<noteq> []
      | JArr xs \<Rightarrow> True
      | JObj kvs \<Rightarrow> True)"

text \<open>A field of a relation inside a template literal.\<close>

definition template :: "string option \<Rightarrow> string" where
  "template v = (case v of None \<Rightarrow> ''undefined'' | Some s \<Rightarrow> s)"

definition quote :: char where
  "quote = CHR 0x27"

section \<open>Filters\<close>

text \<open>The state of the filter loops: \<^verbatim>\<open>idx\<close>, \<^verbatim>\<open>where\<close> and \<^verbatim>\<open>params\<close>; the GET handler
  has \<^verbatim>\<open>orderClause\<close> as well.\<close>

record where_state =
  idx :: nat
  where_list :: "string list"
  params :: "jsval list"

record get_state = where_state +
  orderClause :: string

text \<open>\<^verbatim>\<open>where.push(`<text>${idx++}`); params.push(value);\<close>\<close>

definition add_condition ::
  "string \<Rightarrow> jsval \<Rightarrow> 'a where_state_scheme \<Rightarrow> 'a where_state_scheme" where
  "add_condition text v st =
     st\<lparr>idx := Suc (idx st),
        where_list := where_list st @ [text @ string_of_nat (idx st)],
        params := params st @ [v]\<rparr>"

section \<open>GET\<close>

text \<open>The loop \<^verbatim>\<open>for (const key of Object.keys(req.query))\<close> of the GET handler
  (lines 353 to 376). An \<^verbatim>\<open>order\<close> value that is not a string has no \<^verbatim>\<open>split\<close>
  method.\<close>

fun get_loop :: "string \<Rightarrow> (string \<times> jsval) list \<Rightarrow> get_state \<Rightarrow> exn + get_state" where
  "get_loop table [] st = Inr st"
| "get_loop table ((key, raw) # rest) st =
     (if key = ''select'' \<or> key = ''count'' then get_loop table rest st
      else if key = ''order'' then
        (case raw of
           JStr s \<Rightarrow>
             (let orderParts = str_split CHR ''.'' s;
                  orderCol = (case orderParts of [] \<Rightarrow> ''undefined'' | c # _ \<Rightarrow> c);
                  orderDir = (case orderParts of
                                _ # dir # _ \<Rightarrow> if dir = ''desc'' then ''DESC'' else ''ASC''
                              | _ \<Rightarrow> ''ASC'')
              in get_loop table rest
                   (st\<lparr>orderClause := '' ORDER BY '' @ table @ ''.'' @ orderCol @ '' '' @ orderDir\<rparr>))
         | _ \<Rightarrow> Inl TypeError)
      else
        (case parseFilter raw of
           (op, v) \<Rightarrow>
             if op = ''eq'' then
               get_loop table rest (add_condition (table @ ''.'' @ key @ '' = $'') v st)
             else if op = ''neq'' then
               get_loop table rest (add_condition (table @ ''.'' @ key @ '' != $'') v st)
             else if op = ''lte'' then
               get_loop table rest (add_condition (table @ ''.'' @ key @ '' <= $'') v st)
             else if op = ''gte'' then
               get_loop table rest (add_condition (table @ ''.'' @ key @ '' >= $'') v st)
             else get_loop table rest st))"

text \<open>Lines 379 to 389: the projections and the joins.\<close>

definition relation_projection :: "relation \<Rightarrow> string" where
  "relation_projection rel =
     '', json_build_object(''
       @ str_join '', ''
           (map (\<lambda>c. [quote] @ c @ [quote] @ '', '' @ template (targetTable rel) @ ''.'' @ c)
              (rel_columns rel))
       @ '') as '' @ rel_name rel"

definition relation_join :: "string \<Rightarrow> relation \<Rightarrow> string" where
  "relation_join table rel =
     ''LEFT JOIN '' @ template (targetTable rel) @ '' ON '' @ table @ ''.''
       @ template (foreignKey rel) @ '' = '' @ template (targetTable rel) @ ''.id''"

definition select_clause :: "string \<Rightarrow> string list \<Rightarrow> relation list \<Rightarrow> string" where
  "select_clause table mainColumns relations =
     (if mainColumns \<noteq> []
      then str_join '', ''
             (map (\<lambda>c. if c = ''*'' then table @ ''.*'' else table @ ''.'' @ c) mainColumns)
      else table @ ''.*'')
     @ concat (map relation_projection relations)"

text \<open>Line 345, \<^verbatim>\<open>req.query.select || '*'\<close>, and line 391, the statement.\<close>

definition selectRaw :: "(string \<times> jsval) list \<Rightarrow> jsval" where
  "selectRaw query =
     (case map_of query ''select'' of
        None \<Rightarrow> JStr ''*''
      | Some v \<Rightarrow> if truthy v then v else JStr ''*'')"

definition select_statement :: "string \<Rightarrow> string list \<Rightarrow> relation list \<Rightarrow> get_state \<Rightarrow> string" where
  "select_statement table mainColumns relations st =
     ''SELECT '' @ select_clause table mainColumns relations
       @ '' FROM '' @ table @ '' ''
       @ str_join '' '' (map (relation_join table) relations)
       @ (if where_list st \<noteq> [] then '' WHERE '' @ str_join '' AND '' (where_list st) else [])
       @ orderClause st"

text \<open>The statement and parameters that \<^verbatim>\<open>app.get('/api/:table')\<close> passes to
  \<^verbatim>\<open>pool.query\<close> (lines 343 to 391), or what it throws before.\<close>

definition get_statement ::
  "builtins \<Rightarrow> string \<Rightarrow> (string \<times> jsval) list \<Rightarrow> exn + string \<times> jsval list" where
  "get_statement builtin table query =
     (case parseSupabaseSelect builtin (selectRaw query) table of
        Inl e \<Rightarrow> Inl e
      | Inr (mainColumns, relations) \<Rightarrow>
          (case get_loop table query
                  \<lparr>idx = 1, where_list = [], params = [], orderClause = []\<rparr> of
             Inl e \<Rightarrow> Inl e
           | Inr st \<Rightarrow> Inr (select_statement table mainColumns relations st, params st)))"

definition get_handler ::
  "'d pool \<Rightarrow> builtins \<Rightarrow> 'd \<Rightarrow> string \<Rightarrow> (string \<times> jsval) list \<Rightarrow> response \<times> call list \<times> 'd" where
  "get_handler pool builtin d table query =
     (case get_statement builtin table query of
        Inl e \<Rightarrow> (Response 500 (ErrorOf e), [], d)
      | Inr (q, ps) \<Rightarrow> respond_rows pool d q ps)"

section \<open>POST\<close>

text \<open>\<^verbatim>\<open>Object.keys\<close> and \<^verbatim>\<open>Object.values\<close>; \<^verbatim>\<open>Object.keys\<close> throws on \<^verbatim>\<open>null\<close> and
  \<^verbatim>\<open>undefined\<close>.\<close>

definition object_keys :: "jsval \<Rightarrow> exn + string list" where
  "object_keys v =
     (case v of
        JUndefined \<Rightarrow> Inl TypeError
      | JNull \<Rightarrow> Inl TypeError
      | JBool b \<Rightarrow> Inr []
      | JNum n \<Rightarrow> Inr []
      | JStr s \<Rightarrow> Inr (map string_of_nat [0..<length s])
      | JArr xs \<Rightarrow> Inr (map string_of_nat [0..<length xs])
      | JObj kvs \<Rightarrow> Inr (map fst kvs))"

definition object_values :: "jsval \<Rightarrow> jsval list" where
  "object_values v =
     (case v of
        JStr s \<Rightarrow> map (\<lambda>c. JStr [c]) s
      | JArr xs \<Rightarrow> xs
      | JObj kvs \<Rightarrow> map snd kvs
      | _ \<Rightarrow> [])"

text \<open>Lines 408 to 411: the statement for one row.\<close>

definition insert_statement :: "string \<Rightarrow> jsval \<Rightarrow> exn + string \<times> jsval list" where
  "insert_statement table row =
     (case object_keys row of
        Inl e \<Rightarrow> Inl e
      | Inr cols \<Rightarrow>
          (let vals = object_values row;
               placeholders = str_join '', '' (map (\<lambda>i. ''$'' @ string_of_nat (i + 1)) [0..<length vals])
           in Inr (''INSERT INTO '' @ table @ '' ('' @ str_join '','' cols @ '') VALUES (''
                     @ placeholders @ '') RETURNING *'',
                   vals)))"

definition first_row :: "db_result \<Rightarrow> jsval" where
  "first_row r = (case r of Rows (x # xs) \<Rightarrow> x | _ \<Rightarrow> JUndefined)"

text \<open>The loop \<^verbatim>\<open>for (const row of rows)\<close> with \<^verbatim>\<open>inserted\<close>, the calls made so far
  and the database's state.\<close>

fun post_loop ::
  "'d pool \<Rightarrow> string \<Rightarrow> jsval list \<Rightarrow> jsval list \<times> call list \<times> 'd
     \<Rightarrow> (exn + jsval list) \<times> call list \<times> 'd" where
  "post_loop pool table [] (inserted, calls, d) = (Inr inserted, calls, d)"
| "post_loop pool table (row # rows) (inserted, calls, d) =
     (case insert_statement table row of
        Inl e \<Rightarrow> (Inl e, calls, d)
      | Inr (q, vals) \<Rightarrow>
          (case pool d q vals of
             (Rejected msg, d') \<Rightarrow>
               (Inl (DbFailure msg), calls @ [(q, vals, Rejected msg)], d')
           | (Rows rs, d') \<Rightarrow>
               post_loop pool table rows
                 (inserted @ [first_row (Rows rs)], calls @ [(q, vals, Rows rs)], d')))"

definition body_rows :: "jsval \<Rightarrow> jsval list" where
  "body_rows body = (case body of JArr xs \<Rightarrow> xs | _ \<Rightarrow> [body])"

definition post_handler ::
  "'d pool \<Rightarrow> 'd \<Rightarrow> string \<Rightarrow> jsval \<Rightarrow> response \<times> call list \<times> 'd" where
  "post_handler pool d table body =
     (case post_loop pool table (body_rows body) ([], [], d) of
        (Inl e, calls, d') \<Rightarrow> (Response 500 (ErrorOf e), calls, d')
      | (Inr inserted, calls, d') \<Rightarrow>
          (Response 200 (Data (case inserted of [x] \<Rightarrow> x | _ \<Rightarrow> JArr inserted)), calls, d'))"

section \<open>PATCH and DELETE\<close>

text \<open>\<^verbatim>\<open>Object.keys(req.query).filter(k => k !== 'select')\<close>, each key with its value.\<close>

definition filterKeys :: "(string \<times> jsval) list \<Rightarrow> (string \<times> jsval) list" where
  "filterKeys query = filter (\<lambda>kv. fst kv \<noteq> ''select'') query"

text \<open>The loop \<^verbatim>\<open>for (const key of filterKeys)\<close>, the same in both handlers.\<close>

fun eq_loop :: "(string \<times> jsval) list \<Rightarrow> where_state \<Rightarrow> where_state" where
  "eq_loop [] st = st"
| "eq_loop ((key, raw) # rest) st =
     (case parseFilter raw of
        (op, v) \<Rightarrow>
          if op = ''eq'' then eq_loop rest (add_condition (key @ '' = $'') v st)
          else eq_loop rest st)"

text \<open>Lines 434 and 435: \<^verbatim>\<open>setCols.map((c) => `${c} = $${idx++}`).join(', ')\<close>; the values
  \<^verbatim>\<open>body[c]\<close> of the keys of \<^verbatim>\<open>body\<close> are \<^verbatim>\<open>Object.values(body)\<close>.\<close>

definition setClause :: "string list \<Rightarrow> string" where
  "setClause setCols =
     str_join '', ''
       (map (\<lambda>(c, i). c @ '' = $'' @ string_of_nat i) (zip setCols [1..<Suc (length setCols)]))"

definition patch_handler ::
  "'d pool \<Rightarrow> 'd \<Rightarrow> string \<Rightarrow> (string \<times> jsval) list \<Rightarrow> jsval \<Rightarrow> response \<times> call list \<times> 'd" where
  "patch_handler pool d table query reqBody =
     (let body = (if truthy reqBody then reqBody else JObj [])
      in if filterKeys query = []
         then (Response 400 (ErrorMessage ''Missing filter for update''), [], d)
         else (case object_keys body of
                 Inl e \<Rightarrow> (Response 500 (ErrorOf e), [], d)
               | Inr setCols \<Rightarrow>
                   if setCols = []
                   then (Response 400 (ErrorMessage ''Missing body for update''), [], d)
                   else (let st = eq_loop (filterKeys query)
                                    \<lparr>idx = Suc (length setCols), where_list = [],
                                      params = object_values body\<rparr>
                         in respond_rows pool d
                              (''UPDATE '' @ table @ '' SET '' @ setClause setCols @ '' WHERE ''
                                 @ str_join '' AND '' (where_list st) @ '' RETURNING *'')
                              (params st))))"

definition delete_handler ::
  "'d pool \<Rightarrow> 'd \<Rightarrow> string \<Rightarrow> (string \<times> jsval) list \<Rightarrow> response \<times> call list \<times> 'd" where
  "delete_handler pool d table query =
     (if filterKeys query = []
      then (Response 400 (ErrorMessage ''Missing filter for delete''), [], d)
      else (let st = eq_loop (filterKeys query) \<lparr>idx = 1, where_list = [], params = []\<rparr>
            in respond_rows pool d
                 (''DELETE FROM '' @ table @ '' WHERE '' @ str_join '' AND '' (where_list st)
                    @ '' RETURNING *'')
                 (params st)))"

section \<open>Select expressions that name a relation\<close>







section \<open>What the database returns for a relation\<close>




section \<open>The conditions of a mutation\<close>

text \<open>
  The conditions and parameters that the filters with operator \<open>eq\<close> give, numbered from
  \<open>n\<close>: the closed form of the loop \<open>eq_loop\<close> over the filter keys, to which the
  handlers' statements are compared.
\<close>

definition eq_conditions :: "nat \<Rightarrow> (string \<times> jsval) list \<Rightarrow> string list" where
  "eq_conditions n fks =
     map (\<lambda>(i, kv). fst kv @ '' = $'' @ string_of_nat i)
       (enumerate n (filter (\<lambda>kv. fst (parseFilter (snd kv)) = ''eq'') fks))"

definition eq_values :: "(string \<times> jsval) list \<Rightarrow> jsval list" where
  "eq_values fks =
     map (\<lambda>kv. snd (parseFilter (snd kv)))
       (filter (\<lambda>kv. fst (parseFilter (snd kv)) = ''eq'') fks)"

section \<open>Properties of the filter parser\<close>

lemma takeWhile_word_append_dot:
  assumes "list_all word_char w"
  shows "takeWhile word_char (w @ CHR ''.'' # v) = w"
    and "dropWhile word_char (w @ CHR ''.'' # v) = CHR ''.'' # v"
proof -
  have dot: "\<not> word_char CHR ''.''"
    by (simp add: word_char_def)
  from assms have all: "\<forall>x\<in>set w. word_char x"
    by (simp add: list_all_iff)
  show "takeWhile word_char (w @ CHR ''.'' # v) = w"
    using all dot by (simp add: takeWhile_append2)
  show "dropWhile word_char (w @ CHR ''.'' # v) = CHR ''.'' # v"
    using all dot by (simp add: dropWhile_append2)
qed

lemma recognized_operators_word:
  "op \<in> set recognized_operators \<Longrightarrow> list_all word_char op \<and> op \<noteq> []"
  by (auto simp: recognized_operators_def word_char_def)

text \<open>
  C2, as the code has it. For every string \<open>w.v\<close> whose prefix \<open>w\<close> is a non-empty run of
  word characters, one of the six recognized operators or not, and whose rest \<open>v\<close> has no
  line terminator, the parser returns operator \<open>w\<close> and value \<open>v\<close>. Every string that does not
  start with a non-empty run of word characters followed by a dot, and every value that
  is not a string, comes back whole with operator \<open>eq\<close>.
\<close>

theorem parseFilter_splits_on_any_word_prefix:
  "(op \<in> set recognized_operators \<and> \<not> list_ex line_terminator v
      \<longrightarrow> parseFilter (JStr (op @ CHR ''.'' # v)) = (op, JStr v))
   \<and> (w \<noteq> [] \<and> list_all word_char w \<and> \<not> list_ex line_terminator v
      \<longrightarrow> parseFilter (JStr (w @ CHR ''.'' # v)) = (w, JStr v))
   \<and> (takeWhile word_char s = [] \<or> dropWhile word_char s = []
        \<or> hd (dropWhile word_char s) \<noteq> CHR ''.''
      \<longrightarrow> parseFilter (JStr s) = (''eq'', JStr s))
   \<and> ((\<forall>s. raw \<noteq> JStr s) \<longrightarrow> parseFilter raw = (''eq'', raw))"
proof (intro conjI impI)
  assume "op \<in> set recognized_operators \<and> \<not> list_ex line_terminator v"
  then show "parseFilter (JStr (op @ CHR ''.'' # v)) = (op, JStr v)"
    using recognized_operators_word [of op]
    by (simp add: parseFilter_def takeWhile_word_append_dot)
next
  assume "w \<noteq> [] \<and> list_all word_char w \<and> \<not> list_ex line_terminator v"
  then show "parseFilter (JStr (w @ CHR ''.'' # v)) = (w, JStr v)"
    by (simp add: parseFilter_def takeWhile_word_append_dot)
next
  assume "takeWhile word_char s = [] \<or> dropWhile word_char s = []
            \<or> hd (dropWhile word_char s) \<noteq> CHR ''.''"
  then show "parseFilter (JStr s) = (''eq'', JStr s)"
    by (cases "dropWhile word_char s") (auto simp: parseFilter_def simp del: dropWhile_eq_Nil_conv)
next
  assume "\<forall>s. raw \<noteq> JStr s"
  then show "parseFilter raw = (''eq'', raw)"
    by (cases raw) (simp_all add: parseFilter_def)
qed

theorem parseFilter_splits_on_any_word_prefix_witness:
  "parseFilter (JStr ''lte.5'') = (''lte'', JStr ''5'')
   \<and> parseFilter (JStr ''gt.5'') = (''gt'', JStr ''5'')
   \<and> parseFilter (JStr ''2024-01-01'') = (''eq'', JStr ''2024-01-01'')
   \<and> parseFilter (JArr [JStr ''a'', JStr ''b'']) = (''eq'', JArr [JStr ''a'', JStr ''b''])"
  using parseFilter_splits_on_any_word_prefix
    [of "''lte''" "''5''" "''gt''" "''2024-01-01''" "JArr [JStr ''a'', JStr ''b'']"]
  by (simp add: word_char_def line_terminator_def recognized_operators_def)

text \<open>
  C2 as stated fails: the prefix \<open>gt\<close> is not one of the six recognized operator tokens,
  yet the parser returns it as the operator instead of keeping the whole string as an
  \<open>eq\<close> value.
\<close>

theorem parseFilter_unrecognized_prefix_counterexample:
  "''gt'' \<notin> set recognized_operators
   \<and> parseFilter (JStr ''gt.5'') \<noteq> (''eq'', JStr ''gt.5'')"
  by (simp add: parseFilter_def recognized_operators_def word_char_def line_terminator_def)

section \<open>Properties of the select parser\<close>

lemma white_space_not_word: "white_space c \<Longrightarrow> \<not> word_char c"
  by (auto simp: white_space_def word_char_def Let_def)

lemma paren_classes: "\<not> word_char CHR ''(''" "\<not> white_space CHR ''(''"
  by (simp_all add: word_char_def white_space_def)

lemma span_until:
  assumes "\<forall>x\<in>set xs. P x" and "\<not> P y"
  shows "takeWhile P (xs @ y # ys) = xs" and "dropWhile P (xs @ y # ys) = y # ys"
  using assms by (simp_all add: takeWhile_append2 dropWhile_append2)

lemma match_here_token:
  assumes "nm \<noteq> []" and "list_all word_char nm" and "list_all white_space gap"
    and "inner \<noteq> []" and "CHR '')'' \<notin> set inner"
  shows "match_here (nm @ gap @ ''('' @ inner @ '')'' @ rest)
           = Some ((nm @ gap @ ''('' @ inner @ '')'', nm, inner), rest)"
proof -
  let ?tail = "''('' @ inner @ '')'' @ rest"
  obtain y ys where y: "gap @ ?tail = y # ys" "\<not> word_char y"
    using assms(3) by (cases gap) (auto simp: paren_classes white_space_not_word)
  from assms(2) have w: "\<forall>x\<in>set nm. word_char x"
    by (simp add: list_all_iff)
  from assms(3) have g: "\<forall>x\<in>set gap. white_space x"
    by (simp add: list_all_iff)
  have s1: "takeWhile word_char (nm @ gap @ ?tail) = nm"
    and s2: "dropWhile word_char (nm @ gap @ ?tail) = gap @ ?tail"
    unfolding y(1) using span_until [OF w y(2)] by simp_all
  have s3: "takeWhile white_space (gap @ ?tail) = gap"
    and s4: "dropWhile white_space (gap @ ?tail) = ?tail"
    using span_until [OF g paren_classes(2)] by simp_all
  have i: "\<forall>x\<in>set inner. x \<noteq> CHR '')''"
    using assms(5) by auto
  have s5: "takeWhile (\<lambda>x. x \<noteq> CHR '')'') (inner @ '')'' @ rest) = inner"
    and s6: "dropWhile (\<lambda>x. x \<noteq> CHR '')'') (inner @ '')'' @ rest) = CHR '')'' # rest"
    using span_until [of inner "\<lambda>x. x \<noteq> CHR '')''" "CHR '')''" rest] i by simp_all
  show ?thesis
    unfolding match_here_def s1 s2 s3 s4 Let_def
    using assms(1,4) s5 s6 by simp
qed

lemma match_here_NoneI:
  assumes "dropWhile white_space (dropWhile word_char s) = []
           \<or> hd (dropWhile white_space (dropWhile word_char s)) \<noteq> CHR ''(''"
  shows "match_here s = None"
  using assms by (cases "dropWhile white_space (dropWhile word_char s)")
    (auto simp: match_here_def Let_def simp del: dropWhile_eq_Nil_conv)

lemma match_here_blocked:
  assumes "CHR ''('' \<notin> set u" and "u \<noteq> []" and "\<not> word_char (last u)"
    and "v = [] \<or> word_char (hd v)"
  shows "match_here (u @ v) = None"
proof (rule match_here_NoneI)
  let ?r1 = "dropWhile word_char u"
  have "last u \<in> set u"
    using assms(2) by simp
  then have dw: "dropWhile word_char (u @ v) = ?r1 @ v"
    using assms(3) by (rule dropWhile_append1)
  have sub: "set ?r1 \<subseteq> set u"
    by (auto dest: set_dropWhileD)
  show "dropWhile white_space (dropWhile word_char (u @ v)) = []
        \<or> hd (dropWhile white_space (dropWhile word_char (u @ v))) \<noteq> CHR ''(''"
  proof (cases "\<forall>x\<in>set ?r1. white_space x")
    case True
    then have r2: "dropWhile white_space (?r1 @ v) = dropWhile white_space v"
      by (simp add: dropWhile_append2)
    show ?thesis
    proof (cases v)
      case Nil
      with r2 dw show ?thesis by simp
    next
      case (Cons c cs)
      with assms(4) have "word_char c" by simp
      then have "\<not> white_space c" and "c \<noteq> CHR ''(''"
        using white_space_not_word paren_classes(1) by auto
      with r2 dw Cons show ?thesis by simp
    qed
  next
    case False
    then obtain x where x: "x \<in> set ?r1" "\<not> white_space x"
      by blast
    then have r2: "dropWhile white_space (?r1 @ v) = dropWhile white_space ?r1 @ v"
      by (rule dropWhile_append1)
    from x have ne: "dropWhile white_space ?r1 \<noteq> []"
      by auto
    then have "hd (dropWhile white_space ?r1) \<in> set (dropWhile white_space ?r1)"
      by simp
    then have "hd (dropWhile white_space ?r1) \<in> set u"
      using sub by (auto dest: set_dropWhileD)
    with assms(1) have "hd (dropWhile white_space ?r1) \<noteq> CHR ''(''"
      by auto
    with ne show ?thesis
      unfolding dw r2 by simp
  qed
qed

lemma exec_from_skip:
  assumes "CHR ''('' \<notin> set u" and "u = [] \<or> \<not> word_char (last u)"
    and "v = [] \<or> word_char (hd v)"
  shows "exec_from (u @ v) = exec_from v"
  using assms(1,2)
proof (induction u)
  case Nil
  then show ?case by simp
next
  case (Cons x u)
  from Cons.prems have "match_here ((x # u) @ v) = None"
    by (intro match_here_blocked assms(3)) auto
  moreover from Cons.prems have "exec_from (u @ v) = exec_from v"
    by (intro Cons.IH) (auto split: if_splits)
  ultimately show ?case by simp
qed

lemma exec_from_no_paren: "CHR ''('' \<notin> set s \<Longrightarrow> exec_from s = None"
proof (induction s)
  case Nil
  then show ?case by simp
next
  case (Cons c cs)
  let ?r2 = "dropWhile white_space (dropWhile word_char (c # cs))"
  have "set ?r2 \<subseteq> set (c # cs)"
    by (meson set_dropWhileD subsetI)
  with Cons.prems have "?r2 = [] \<or> hd ?r2 \<noteq> CHR ''(''"
    by (metis hd_in_set subsetD)
  then have "match_here (c # cs) = None"
    by (rule match_here_NoneI)
  with Cons show ?case by simp
qed

lemma relation_matches_single:
  assumes "nm \<noteq> []" and "list_all word_char nm" and "list_all white_space gap"
    and "inner \<noteq> []" and "CHR '')'' \<notin> set inner"
    and "CHR ''('' \<notin> set pre" and "pre = [] \<or> \<not> word_char (last pre)"
    and "CHR ''('' \<notin> set post"
  shows "relation_matches (pre @ nm @ gap @ ''('' @ inner @ '')'' @ post)
           = [(nm @ gap @ ''('' @ inner @ '')'', nm, inner)]"
proof -
  let ?v = "nm @ gap @ ''('' @ inner @ '')'' @ post"
  from assms(1,2) have hd: "?v = [] \<or> word_char (hd ?v)"
    by (cases nm) simp_all
  obtain c cs where v: "?v = c # cs"
    using assms(1) by (cases nm) auto
  have "exec_from (pre @ ?v) = exec_from ?v"
    using assms(6,7) hd by (rule exec_from_skip)
  also have "\<dots> = Some ((nm @ gap @ ''('' @ inner @ '')'', nm, inner), post)"
    using match_here_token [OF assms(1-5), of post] unfolding v by simp
  finally have first: "exec_from (pre @ ?v)
      = Some ((nm @ gap @ ''('' @ inner @ '')'', nm, inner), post)" .
  have rest: "relation_matches post = []"
    using exec_from_no_paren [OF assms(8)] by (subst relation_matches.simps) simp
  show ?thesis
    by (subst relation_matches.simps) (use first rest in simp)
qed

lemma prefix_nth: "prefix t s \<Longrightarrow> i < length t \<Longrightarrow> s ! i = t ! i"
  by (auto simp: prefix_def nth_append)

lemma replace_first_unique:
  assumes "CHR ''('' \<notin> set a"
  shows "CHR ''('' \<notin> set pre \<Longrightarrow>
         replace_first (a @ CHR ''('' # b) (pre @ (a @ CHR ''('' # b) @ post) = pre @ post"
proof (induction pre)
  case Nil
  obtain c cs where t: "(a @ CHR ''('' # b) @ post = c # cs"
    by (cases a) auto
  have "prefix (a @ CHR ''('' # b) (c # cs)"
    unfolding t [symmetric] by simp
  moreover have "drop (length (a @ CHR ''('' # b)) (c # cs) = post"
    unfolding t [symmetric] by simp
  ultimately show ?case
    using t by simp
next
  case (Cons x pre)
  let ?t = "a @ CHR ''('' # b"
  let ?s = "(x # pre) @ ?t @ post"
  have "\<not> prefix ?t ?s"
  proof
    assume "prefix ?t ?s"
    then have "?s ! length a = ?t ! length a"
      by (rule prefix_nth) simp
    then have "?s ! length a = CHR ''(''"
      by simp
    moreover have "?s = ((x # pre) @ a) @ CHR ''('' # b @ post"
      by simp
    then have "?s ! length a = ((x # pre) @ a) ! length a"
      by (simp only: nth_append) simp
    moreover have "((x # pre) @ a) ! length a \<in> set ((x # pre) @ a)"
      by (rule nth_mem) simp
    ultimately show False
      using assms Cons.prems by auto
  qed
  moreover from Cons have "replace_first ?t (pre @ ?t @ post) = pre @ post"
    by simp
  ultimately show ?case by simp
qed

lemma relation_loop_step:
  assumes "relation_loop builtin table ((a, nm, b) # ms) (rels0, ts0) = Inr (rels, ts)"
  obtains found where "lookup_relationship builtin table nm = Inr found"
    and "relation_loop builtin table ms
           (case found of
              Absent \<Rightarrow> rels0
            | Declared fk target \<Rightarrow>
                rels0 @ [\<lparr>rel_name = nm, rel_columns = map trim (str_split CHR '','' b),
                          foreignKey = Some fk, targetTable = Some target\<rparr>]
            | Inherited \<Rightarrow>
                rels0 @ [\<lparr>rel_name = nm, rel_columns = map trim (str_split CHR '','' b),
                          foreignKey = None, targetTable = None\<rparr>],
            replace_first a ts0) = Inr (rels, ts)"
  using assms by (auto split: sum.splits)

lemma relation_loop_names:
  "relation_loop builtin table ms (rels0, ts0) = Inr (rels, ts) \<Longrightarrow> r \<in> set rels \<Longrightarrow>
   r \<in> set rels0 \<or> lookup_relationship builtin table (rel_name r) \<noteq> Inr Absent"
proof (induction ms arbitrary: rels0 ts0)
  case Nil
  then show ?case by simp
next
  case (Cons m ms)
  obtain a nm b where m: "m = (a, nm, b)"
    by (cases m) auto
  from Cons.prems(1) [unfolded m] obtain found where
    f: "lookup_relationship builtin table nm = Inr found" and
    step: "relation_loop builtin table ms
           (case found of
              Absent \<Rightarrow> rels0
            | Declared fk target \<Rightarrow>
                rels0 @ [\<lparr>rel_name = nm, rel_columns = map trim (str_split CHR '','' b),
                          foreignKey = Some fk, targetTable = Some target\<rparr>]
            | Inherited \<Rightarrow>
                rels0 @ [\<lparr>rel_name = nm, rel_columns = map trim (str_split CHR '','' b),
                          foreignKey = None, targetTable = None\<rparr>],
            replace_first a ts0) = Inr (rels, ts)"
    by (rule relation_loop_step)
  from Cons.IH [OF step Cons.prems(2)] f show ?case
    by (cases found) auto
qed

text \<open>
  C4, as the code has it. Let the identifier of a relation-shaped token \<open>ident(cols)\<close> be
  absent from the relationship map of the table (not declared there and not inherited).
  Then the select parser records no relation request under that name, and it removes the
  token's text from the leftover string instead of keeping it: when the cleaned select
  expression is \<open>pre ident(cols) post\<close>, where \<open>pre\<close> and \<open>post\<close> have no opening
  parenthesis and \<open>pre\<close> does not end in a word character, the parser returns no relation
  and the plain columns of \<open>pre post\<close>, the expression with the token cut out.
\<close>

theorem unknown_relation_token_is_dropped:
  assumes "lookup_relationship builtin table ident = Inr Absent"
  shows "(parseSupabaseSelect builtin (JStr s) table = Inr (mainColumns, relations)
            \<longrightarrow> ident \<notin> rel_name ` set relations)
       \<and> (trim (collapse_spaces s) = pre @ ident @ gap @ ''('' @ cols @ '')'' @ post
            \<and> ident \<noteq> [] \<and> list_all word_char ident \<and> list_all white_space gap
            \<and> cols \<noteq> [] \<and> CHR '')'' \<notin> set cols
            \<and> CHR ''('' \<notin> set pre \<and> (pre = [] \<or> \<not> word_char (last pre))
            \<and> CHR ''('' \<notin> set post
            \<longrightarrow> parseSupabaseSelect builtin (JStr s) table = Inr (main_columns (pre @ post), []))"
proof (intro conjI impI)
  assume "parseSupabaseSelect builtin (JStr s) table = Inr (mainColumns, relations)"
  then obtain ts where
    "relation_loop builtin table (relation_matches (trim (collapse_spaces s)))
       ([], trim (collapse_spaces s)) = Inr (relations, ts)"
    by (auto simp: parseSupabaseSelect_def Let_def split: sum.splits prod.splits)
  from relation_loop_names [OF this] assms show "ident \<notin> rel_name ` set relations"
    by auto
next
  assume a: "trim (collapse_spaces s) = pre @ ident @ gap @ ''('' @ cols @ '')'' @ post
            \<and> ident \<noteq> [] \<and> list_all word_char ident \<and> list_all white_space gap
            \<and> cols \<noteq> [] \<and> CHR '')'' \<notin> set cols
            \<and> CHR ''('' \<notin> set pre \<and> (pre = [] \<or> \<not> word_char (last pre))
            \<and> CHR ''('' \<notin> set post"
  let ?token = "ident @ gap @ ''('' @ cols @ '')''"
  have matches: "relation_matches (pre @ ident @ gap @ ''('' @ cols @ '')'' @ post)
      = [(?token, ident, cols)]"
    using a by (intro relation_matches_single) simp_all
  have "CHR ''('' \<notin> set (ident @ gap)"
    using a paren_classes by (auto simp: list_all_iff)
  from replace_first_unique [OF this, of pre "cols @ '')''" post] a
  have removed: "replace_first ?token (pre @ ident @ gap @ ''('' @ cols @ '')'' @ post) = pre @ post"
    by simp
  show "parseSupabaseSelect builtin (JStr s) table = Inr (main_columns (pre @ post), [])"
    using a matches removed assms
    by (simp add: parseSupabaseSelect_def Let_def)
qed

theorem unknown_relation_token_is_dropped_witness:
  "parseSupabaseSelect (\<lambda>t n. Falsy) (JStr ''name, foo (id), sku'') ''products''
     = Inr (main_columns (''name, '' @ '', sku''), [])"
proof -
  have l: "lookup_relationship (\<lambda>t n. Falsy) ''products'' ''foo'' = Inr Absent"
    by code_simp
  have c: "trim (collapse_spaces ''name, foo (id), sku'')
             = ''name, '' @ ''foo'' @ '' '' @ ''('' @ ''id'' @ '')'' @ '', sku''"
    by code_simp
  have h: "''foo'' \<noteq> [] \<and> list_all word_char ''foo'' \<and> list_all white_space '' ''
            \<and> ''id'' \<noteq> [] \<and> CHR '')'' \<notin> set ''id''
            \<and> CHR ''('' \<notin> set ''name, '' \<and> (''name, '' = [] \<or> \<not> word_char (last ''name, ''))
            \<and> CHR ''('' \<notin> set '', sku''"
    by (simp add: word_char_def white_space_def)
  show ?thesis
    using unknown_relation_token_is_dropped [OF l, of "''name, foo (id), sku''" _ _
        "''name, ''" "'' ''" "''id''" "'', sku''"] c h
    by blast
qed

text \<open>
  C4 as stated fails: \<open>foo\<close> is not in the relationship map of \<open>products\<close>, and the text
  \<open>foo(id)\<close> does not end up among the plain columns; it is dropped.
\<close>

theorem unknown_relation_token_counterexample:
  "lookup_relationship (\<lambda>t n. Falsy) ''products'' ''foo'' = Inr Absent
   \<and> parseSupabaseSelect (\<lambda>t n. Falsy) (JStr ''*,foo(id)'') ''products'' = Inr ([''*''], [])"
  by code_simp

section \<open>Properties of the GET handler\<close>

lemma respond_rows_status:
  "status (fst (respond_rows pool d q ps)) = 200 \<or> status (fst (respond_rows pool d q ps)) = 500"
  by (auto simp: respond_rows_def split: prod.splits db_result.splits)

lemma respond_rows_calls: "map statement (fst (snd (respond_rows pool d q ps))) = [q]"
  by (auto simp: respond_rows_def statement_def split: prod.splits db_result.splits)

lemma get_statement_empty_query:
  "get_statement builtin table [] = Inr (''SELECT '' @ table @ ''.* FROM '' @ table @ '' '', [])"
  by code_simp simp

lemma get_statement_cases:
  assumes "get_statement builtin table query = Inr (q, ps)"
  obtains mainColumns relations st where
    "parseSupabaseSelect builtin (selectRaw query) table = Inr (mainColumns, relations)"
    "get_loop table query \<lparr>idx = 1, where_list = [], params = [], orderClause = []\<rparr> = Inr st"
    "q = select_statement table mainColumns relations st" "ps = params st"
  using assms by (auto simp: get_statement_def split: sum.splits prod.splits)

lemma get_statement_from:
  assumes "get_statement builtin table query = Inr (q, ps)"
  shows "sublist ('' FROM '' @ table @ '' '') q"
proof -
  from assms obtain mainColumns relations st
    where "q = select_statement table mainColumns relations st"
    by (rule get_statement_cases)
  then have "q = (''SELECT '' @ select_clause table mainColumns relations)
      @ ('' FROM '' @ table @ '' '')
      @ (str_join '' '' (map (relation_join table) relations)
       @ (if where_list st \<noteq> [] then '' WHERE '' @ str_join '' AND '' (where_list st) else [])
       @ orderClause st)"
    unfolding select_statement_def by (simp only: append_assoc)
  then show ?thesis
    unfolding sublist_def by blast
qed

text \<open>
  C1, as the code has it. The GET handler has no allow-list of tables or columns: it
  never answers with a 400-class error (its responses are 200 or 500), and it
  interpolates the table segment as it is. For every table name, a GET without query
  parameters builds \<open>SELECT t.* FROM t\<close>; whenever a GET builds a statement, that
  statement reads \<open>FROM\<close> the table segment and is the one statement passed to the
  database.
\<close>

theorem get_interpolates_any_table:
  "get_statement builtin table [] = Inr (''SELECT '' @ table @ ''.* FROM '' @ table @ '' '', [])
   \<and> (status (fst (get_handler pool builtin d table query)) = 200
        \<or> status (fst (get_handler pool builtin d table query)) = 500)
   \<and> (get_statement builtin table query = Inr (q, ps)
        \<longrightarrow> map statement (fst (snd (get_handler pool builtin d table query))) = [q]
            \<and> sublist ('' FROM '' @ table @ '' '') q)"
proof (intro conjI impI)
  show "get_statement builtin table [] = Inr (''SELECT '' @ table @ ''.* FROM '' @ table @ '' '', [])"
    by (rule get_statement_empty_query)
next
  show "status (fst (get_handler pool builtin d table query)) = 200
        \<or> status (fst (get_handler pool builtin d table query)) = 500"
    using respond_rows_status [of pool d]
    by (auto simp: get_handler_def split: sum.splits)
next
  assume "get_statement builtin table query = Inr (q, ps)"
  then show "map statement (fst (snd (get_handler pool builtin d table query))) = [q]"
    by (simp add: get_handler_def respond_rows_calls)
next
  assume "get_statement builtin table query = Inr (q, ps)"
  then show "sublist ('' FROM '' @ table @ '' '') q"
    by (rule get_statement_from)
qed

theorem get_interpolates_any_table_witness:
  "get_statement (\<lambda>t n. Falsy) ''no_such_table'' [(''id'', JStr ''7'')]
     = Inr (''SELECT no_such_table.* FROM no_such_table  WHERE no_such_table.id = $1'', [JStr ''7''])
   \<and> map statement (fst (snd (get_handler (\<lambda>d q ps. (Rows [], d)) (\<lambda>t n. Falsy) ()
         ''no_such_table'' [(''id'', JStr ''7'')])))
       = [''SELECT no_such_table.* FROM no_such_table  WHERE no_such_table.id = $1'']
   \<and> sublist '' FROM no_such_table ''
        ''SELECT no_such_table.* FROM no_such_table  WHERE no_such_table.id = $1''"
proof -
  have h: "get_statement (\<lambda>t n. Falsy) ''no_such_table'' [(''id'', JStr ''7'')]
     = Inr (''SELECT no_such_table.* FROM no_such_table  WHERE no_such_table.id = $1'', [JStr ''7''])"
    by code_simp
  show ?thesis
    using h get_interpolates_any_table
      [of "\<lambda>t n. Falsy" "''no_such_table''" "\<lambda>d q ps. (Rows [], d)" "()" "[(''id'', JStr ''7'')]"
          "''SELECT no_such_table.* FROM no_such_table  WHERE no_such_table.id = $1''" "[JStr ''7'']"]
    by simp
qed

text \<open>
  C1 as stated fails: for a table segment outside the list of known tables the handler
  answers 200, after passing a statement with that identifier to the database.
\<close>

theorem get_unknown_table_counterexample:
  "get_handler (\<lambda>d q ps. (Rows [], d)) (\<lambda>t n. Falsy) () ''drop_table_students;--'' []
     = (Response 200 (Data (JArr [])),
        [(''SELECT drop_table_students;--.* FROM drop_table_students;-- '', [], Rows [])], ())"
  by code_simp

text \<open>
  C5 at a failing input: the filters \<open>not.is.null\<close> and \<open>is.null\<close> parse to the operators
  \<open>not\<close> and \<open>is\<close>, which no branch of the GET loop handles, and the statement has no
  \<open>WHERE\<close> clause.
\<close>

theorem get_drops_is_and_not_filters:
  "get_statement (\<lambda>t n. Falsy) ''products''
       [(''expiration_date'', JStr ''not.is.null''), (''deleted_at'', JStr ''is.null'')]
     = Inr (''SELECT products.* FROM products '', [])"
  by code_simp









































section \<open>Properties of the POST handler\<close>

lemma post_loop_trace:
  "post_loop pool table rows (ins0, calls0, d0) = (Inr ins, calls, d') \<Longrightarrow>
     \<exists>new. calls = calls0 @ new
        \<and> ins = ins0 @ map (\<lambda>c. first_row (result c)) new
        \<and> map (\<lambda>c. Inr (statement c, parameters c)) new = map (insert_statement table) rows
        \<and> list_all succeeded new"
proof (induction rows arbitrary: ins0 calls0 d0)
  case Nil
  then show ?case by simp
next
  case (Cons row rows)
  from Cons.prems obtain q vals where stmt: "insert_statement table row = Inr (q, vals)"
    by (auto split: sum.splits)
  from Cons.prems stmt obtain rs d1 where run: "pool d0 q vals = (Rows rs, d1)"
    by (auto split: prod.splits db_result.splits)
  from Cons.prems stmt run
  have "post_loop pool table rows
          (ins0 @ [first_row (Rows rs)], calls0 @ [(q, vals, Rows rs)], d1) = (Inr ins, calls, d')"
    by simp
  from Cons.IH [OF this] obtain new where
    new: "calls = (calls0 @ [(q, vals, Rows rs)]) @ new"
         "ins = (ins0 @ [first_row (Rows rs)]) @ map (\<lambda>c. first_row (result c)) new"
         "map (\<lambda>c. Inr (statement c, parameters c)) new = map (insert_statement table) rows"
         "list_all succeeded new"
    by blast
  show ?case
  proof (intro exI conjI)
    show "calls = calls0 @ ((q, vals, Rows rs) # new)"
      using new(1) by simp
    show "ins = ins0 @ map (\<lambda>c. first_row (result c)) ((q, vals, Rows rs) # new)"
      using new(2) by (simp add: result_def)
    show "map (\<lambda>c. Inr (statement c, parameters c)) ((q, vals, Rows rs) # new)
            = map (insert_statement table) (row # rows)"
      using new(3) stmt by (simp add: statement_def parameters_def)
    show "list_all succeeded ((q, vals, Rows rs) # new)"
      using new(4) by (simp add: succeeded_def result_def)
  qed
qed

lemma post_loop_append:
  "post_loop pool table (xs @ ys) st =
     (case post_loop pool table xs st of
        (Inl e, calls, d') \<Rightarrow> (Inl e, calls, d')
      | (Inr ins, calls, d') \<Rightarrow> post_loop pool table ys (ins, calls, d'))"
proof (induction xs arbitrary: st)
  case Nil
  then show ?case by (cases st) simp
next
  case (Cons x xs)
  obtain ins calls d where st: "st = (ins, calls, d)"
    by (cases st) auto
  show ?case
    unfolding st by (simp add: Cons.IH split: sum.splits prod.splits db_result.splits)
qed

text \<open>
  C3, as the code has it. When the POST handler answers 200, it has passed one INSERT
  statement per submitted row to the database, in the order of the rows, and its response
  is the row returned for the only statement when exactly one row was submitted (a single
  object, or an array of length one), and otherwise the array of the rows returned for
  the statements, in the order of the input.
\<close>

theorem post_single_row_iff_one_submitted:
  assumes "post_handler pool d table body = (Response 200 p, calls, d')"
  shows "map (\<lambda>c. Inr (statement c, parameters c)) calls
           = map (insert_statement table) (body_rows body)
         \<and> length calls = length (body_rows body)
         \<and> p = Data (case calls of
                       [c] \<Rightarrow> first_row (result c)
                     | _ \<Rightarrow> JArr (map (\<lambda>c. first_row (result c)) calls))"
proof -
  from assms obtain ins where
    loop: "post_loop pool table (body_rows body) ([], [], d) = (Inr ins, calls, d')"
    and p: "p = Data (case ins of [x] \<Rightarrow> x | _ \<Rightarrow> JArr ins)"
    by (auto simp: post_handler_def split: prod.splits sum.splits)
  from post_loop_trace [OF loop] have
    ins: "ins = map (\<lambda>c. first_row (result c)) calls"
    and stmts: "map (\<lambda>c. Inr (statement c, parameters c)) calls
                  = map (insert_statement table) (body_rows body)"
    by auto
  have "(case ins of [x] \<Rightarrow> x | _ \<Rightarrow> JArr ins)
          = (case calls of [c] \<Rightarrow> first_row (result c)
             | _ \<Rightarrow> JArr (map (\<lambda>c. first_row (result c)) calls))"
    unfolding ins by (cases calls rule: list.exhaust; simp split: list.splits)
  moreover from stmts have "length calls = length (body_rows body)"
    by (rule map_eq_imp_length_eq)
  ultimately show ?thesis
    using p stmts by simp
qed

theorem post_single_row_iff_one_submitted_witness:
  "map (\<lambda>c. Inr (statement c, parameters c))
       [(''INSERT INTO categories (name) VALUES ($1) RETURNING *'', [JStr ''a''], Rows [JNum 7]),
        (''INSERT INTO categories (name) VALUES ($1) RETURNING *'', [JStr ''b''], Rows [JNum 7])]
     = map (insert_statement ''categories'')
         (body_rows (JArr [JObj [(''name'', JStr ''a'')], JObj [(''name'', JStr ''b'')]]))
   \<and> length [(''INSERT INTO categories (name) VALUES ($1) RETURNING *'', [JStr ''a''], Rows [JNum 7]),
        (''INSERT INTO categories (name) VALUES ($1) RETURNING *'', [JStr ''b''], Rows [JNum 7])]
     = length (body_rows (JArr [JObj [(''name'', JStr ''a'')], JObj [(''name'', JStr ''b'')]]))
   \<and> Data (JArr [JNum 7, JNum 7])
     = Data (case [(''INSERT INTO categories (name) VALUES ($1) RETURNING *'', [JStr ''a''], Rows [JNum 7]),
                   (''INSERT INTO categories (name) VALUES ($1) RETURNING *'', [JStr ''b''], Rows [JNum 7])] of
               [c] \<Rightarrow> first_row (result c)
             | _ \<Rightarrow> JArr (map (\<lambda>c. first_row (result c))
                    [(''INSERT INTO categories (name) VALUES ($1) RETURNING *'', [JStr ''a''], Rows [JNum 7]),
                     (''INSERT INTO categories (name) VALUES ($1) RETURNING *'', [JStr ''b''], Rows [JNum 7])]))"
proof -
  have h: "post_handler (\<lambda>d q ps. (Rows [JNum 7], d)) () ''categories''
             (JArr [JObj [(''name'', JStr ''a'')], JObj [(''name'', JStr ''b'')]])
           = (Response 200 (Data (JArr [JNum 7, JNum 7])),
              [(''INSERT INTO categories (name) VALUES ($1) RETURNING *'', [JStr ''a''], Rows [JNum 7]),
               (''INSERT INTO categories (name) VALUES ($1) RETURNING *'', [JStr ''b''], Rows [JNum 7])],
              ())"
    by code_simp
  show ?thesis
    by (rule post_single_row_iff_one_submitted [OF h])
qed

text \<open>
  C3 as stated fails: the body is an array of length one, and the response is the
  inserted row itself, not an array.
\<close>

theorem post_array_of_one_counterexample:
  "post_handler (\<lambda>d q ps. (Rows [JObj ((''id'', JNum 1) # zip [''name''] ps)], d)) ()
       ''products'' (JArr [JObj [(''name'', JStr ''Widget'')]])
     = (Response 200 (Data (JObj [(''id'', JNum 1), (''name'', JStr ''Widget'')])),
        [(''INSERT INTO products (name) VALUES ($1) RETURNING *'', [JStr ''Widget''],
          Rows [JObj [(''id'', JNum 1), (''name'', JStr ''Widget'')]])], ())"
  by code_simp

text \<open>
  C9. A POST of an array whose first \<open>K\<close> rows are inserted, leaving the database in
  state \<open>dK\<close>, and whose next row the database rejects, answers 500 with the database's
  message. The calls made are the \<open>K\<close> INSERT statements that succeeded, one per row,
  followed by the rejected one, and nothing else: no statement undoes the earlier
  inserts, and the database is left in the state that follows \<open>dK\<close>.
\<close>

theorem post_batch_not_atomic:
  assumes "K < length rows"
    and "post_loop pool table (take K rows) ([], [], d) = (Inr ins, calls, dK)"
    and "insert_statement table (rows ! K) = Inr (q, vals)"
    and "pool dK q vals = (Rejected msg, d')"
  shows "post_handler pool d table (JArr rows)
           = (Response 500 (ErrorOf (DbFailure msg)), calls @ [(q, vals, Rejected msg)], d')
         \<and> map (\<lambda>c. Inr (statement c, parameters c)) calls
             = map (insert_statement table) (take K rows)
         \<and> list_all succeeded calls"
proof -
  have split: "rows = take K rows @ (rows ! K) # drop (Suc K) rows"
    using assms(1) by (simp add: id_take_nth_drop)
  have "post_loop pool table rows ([], [], d)
          = post_loop pool table ((rows ! K) # drop (Suc K) rows) (ins, calls, dK)"
    by (subst split) (simp add: post_loop_append assms(2))
  also have "\<dots> = (Inl (DbFailure msg), calls @ [(q, vals, Rejected msg)], d')"
    using assms(3,4) by simp
  finally have "post_handler pool d table (JArr rows)
           = (Response 500 (ErrorOf (DbFailure msg)), calls @ [(q, vals, Rejected msg)], d')"
    by (simp add: post_handler_def body_rows_def)
  moreover have "map (\<lambda>c. Inr (statement c, parameters c)) calls
             = map (insert_statement table) (take K rows)"
    and "list_all succeeded calls"
    using post_loop_trace [OF assms(2)] by auto
  ultimately show ?thesis by simp
qed

theorem post_batch_not_atomic_witness:
  "post_handler
       (\<lambda>d q ps. if ps = [JStr ''dup''] then (Rejected ''duplicate key'', d)
                  else (Rows [JArr ps], Suc d))
       (0::nat) ''categories''
       (JArr [JObj [(''name'', JStr ''a'')], JObj [(''name'', JStr ''dup'')],
              JObj [(''name'', JStr ''c'')]])
     = (Response 500 (ErrorOf (DbFailure ''duplicate key'')),
        [(''INSERT INTO categories (name) VALUES ($1) RETURNING *'', [JStr ''a''],
          Rows [JArr [JStr ''a'']])]
        @ [(''INSERT INTO categories (name) VALUES ($1) RETURNING *'', [JStr ''dup''],
            Rejected ''duplicate key'')],
        Suc 0)
   \<and> map (\<lambda>c. Inr (statement c, parameters c))
        [(''INSERT INTO categories (name) VALUES ($1) RETURNING *'', [JStr ''a''],
          Rows [JArr [JStr ''a'']])]
     = map (insert_statement ''categories'')
         (take 1 [JObj [(''name'', JStr ''a'')], JObj [(''name'', JStr ''dup'')],
                  JObj [(''name'', JStr ''c'')]])
   \<and> list_all succeeded
        [(''INSERT INTO categories (name) VALUES ($1) RETURNING *'', [JStr ''a''],
          Rows [JArr [JStr ''a'']])]"
proof -
  let ?pool = "(\<lambda>d q ps. if ps = [JStr ''dup''] then (Rejected ''duplicate key'', d)
                  else (Rows [JArr ps], Suc d)) :: nat pool"
  let ?rows = "[JObj [(''name'', JStr ''a'')], JObj [(''name'', JStr ''dup'')],
                JObj [(''name'', JStr ''c'')]]"
  have k: "1 < length ?rows"
    by simp
  have first_k: "post_loop ?pool ''categories'' (take 1 ?rows) ([], [], 0)
      = (Inr [JArr [JStr ''a'']],
         [(''INSERT INTO categories (name) VALUES ($1) RETURNING *'', [JStr ''a''],
           Rows [JArr [JStr ''a'']])], Suc 0)"
    by code_simp
  have next_stmt: "insert_statement ''categories'' (?rows ! 1)
      = Inr (''INSERT INTO categories (name) VALUES ($1) RETURNING *'', [JStr ''dup''])"
    by code_simp
  have rejected: "?pool (Suc 0) ''INSERT INTO categories (name) VALUES ($1) RETURNING *''
      [JStr ''dup''] = (Rejected ''duplicate key'', Suc 0)"
    by simp
  show ?thesis
    by (rule post_batch_not_atomic [OF k first_k next_stmt rejected])
qed



section \<open>Properties of the PATCH and DELETE handlers\<close>

text \<open>
  With no query key other than \<open>select\<close>, PATCH and DELETE reject the request before any
  call to the database; a PATCH with such a key and a body without fields is rejected too.
\<close>

lemma mutations_reject_without_keys:
  "(filterKeys query = [] \<longrightarrow>
      patch_handler pool d table query reqBody
        = (Response 400 (ErrorMessage ''Missing filter for update''), [], d))
   \<and> (filterKeys query \<noteq> [] \<and> object_keys (if truthy reqBody then reqBody else JObj []) = Inr [] \<longrightarrow>
      patch_handler pool d table query reqBody
        = (Response 400 (ErrorMessage ''Missing body for update''), [], d))
   \<and> (filterKeys query = [] \<longrightarrow>
      delete_handler pool d table query
        = (Response 400 (ErrorMessage ''Missing filter for delete''), [], d))"
  by (simp add: patch_handler_def delete_handler_def Let_def)

text \<open>
  C7 at failing inputs. The keys \<open>count\<close> and \<open>order\<close> are reserved, so these requests have
  no filter key; yet the PATCH with a body and the DELETE are not rejected: their
  statements are passed to the database. The PATCH with an empty body gets past the check
  for a filter and is rejected only for its body, with \<open>Missing body for update\<close>.
\<close>

theorem mutations_take_reserved_keys_for_filters:
  "patch_handler (\<lambda>d q ps. (Rows [], d)) () ''products'' [(''order'', JStr ''name.asc'')]
       (JObj [(''current_stock'', JNum 5)])
     = (Response 200 (Data (JArr [])),
        [(''UPDATE products SET current_stock = $1 WHERE  RETURNING *'', [JNum 5], Rows [])], ())
   \<and> delete_handler (\<lambda>d q ps. (Rows [], d)) () ''products'' [(''count'', JStr ''exact'')]
     = (Response 200 (Data (JArr [])),
        [(''DELETE FROM products WHERE count = $1 RETURNING *'', [JStr ''exact''], Rows [])], ())
   \<and> patch_handler (\<lambda>d q ps. (Rows [], d)) () ''products'' [(''count'', JStr ''exact'')] (JObj [])
     = (Response 400 (ErrorMessage ''Missing body for update''), [], ())"
  by code_simp

lemma eq_loop_conditions:
  "where_list (eq_loop fks st)
     = where_list st
       @ map (\<lambda>(i, kv). fst kv @ '' = $'' @ string_of_nat i)
           (enumerate (idx st) (filter (\<lambda>kv. fst (parseFilter (snd kv)) = ''eq'') fks))
   \<and> params (eq_loop fks st)
     = params st @ map (\<lambda>kv. snd (parseFilter (snd kv)))
                    (filter (\<lambda>kv. fst (parseFilter (snd kv)) = ''eq'') fks)"
proof (induction fks arbitrary: st)
  case Nil
  then show ?case by simp
next
  case (Cons kv fks)
  obtain key raw where kv: "kv = (key, raw)"
    by (cases kv) auto
  obtain op v where pf: "parseFilter raw = (op, v)"
    by (cases "parseFilter raw") auto
  show ?case
  proof (cases "op = ''eq''")
    case True
    then show ?thesis
      unfolding kv using pf
      by (simp add: Cons.IH add_condition_def)
  next
    case False
    then show ?thesis
      unfolding kv using pf by (simp add: Cons.IH)
  qed
qed

text \<open>
  C8 at failing inputs: GET skips the keys \<open>count\<close> and \<open>order\<close> as filters, but in PATCH
  the key \<open>count\<close> gives the condition \<open>count = $2\<close>, and in DELETE the key \<open>order\<close> alone
  passes the check for at least one filter, so a statement is sent instead of the 400
  response.
\<close>

theorem mutations_treat_count_and_order_as_filters:
  "get_statement (\<lambda>t n. Falsy) ''products''
       [(''count'', JStr ''exact''), (''order'', JStr ''name.asc'')]
     = Inr (''SELECT products.* FROM products  ORDER BY products.name ASC'', [])
   \<and> patch_handler (\<lambda>d q ps. (Rows [], d)) () ''products'' [(''count'', JStr ''exact'')]
       (JObj [(''name'', JStr ''x'')])
     = (Response 200 (Data (JArr [])),
        [(''UPDATE products SET name = $1 WHERE count = $2 RETURNING *'',
          [JStr ''x'', JStr ''exact''], Rows [])], ())
   \<and> delete_handler (\<lambda>d q ps. (Rows [], d)) () ''products'' [(''order'', JStr ''name.asc'')]
     = (Response 200 (Data (JArr [])),
        [(''DELETE FROM products WHERE  RETURNING *'', [], Rows [])], ())"
  by code_simp

lemma eq_loop_eq_conditions:
  "where_list (eq_loop fks st) = where_list st @ eq_conditions (idx st) fks"
  "params (eq_loop fks st) = params st @ eq_values fks"
  using eq_loop_conditions [of fks st] by (simp_all add: eq_conditions_def eq_values_def)

lemma no_eq_filter:
  assumes "list_all (\<lambda>kv. fst (parseFilter (snd kv)) \<noteq> ''eq'') fks"
  shows "eq_conditions n fks = []" and "eq_values fks = []"
proof -
  from assms have "filter (\<lambda>kv. fst (parseFilter (snd kv)) = ''eq'') fks = []"
    by (simp add: list_all_iff filter_empty_conv)
  then show "eq_conditions n fks = []" and "eq_values fks = []"
    by (simp_all add: eq_conditions_def eq_values_def)
qed

lemma delete_handler_sends:
  assumes "filterKeys query \<noteq> []"
    and "pool d (''DELETE FROM '' @ table @ '' WHERE ''
                   @ str_join '' AND '' (eq_conditions 1 (filterKeys query)) @ '' RETURNING *'')
           (eq_values (filterKeys query)) = (res, d')"
  shows "delete_handler pool d table query
           = ((case res of
                 Rejected msg \<Rightarrow> Response 500 (ErrorOf (DbFailure msg))
               | Rows rows \<Rightarrow> Response 200 (Data (JArr rows))),
              [(''DELETE FROM '' @ table @ '' WHERE ''
                  @ str_join '' AND '' (eq_conditions 1 (filterKeys query)) @ '' RETURNING *'',
                eq_values (filterKeys query), res)],
              d')"
  using assms
  by (cases res) (simp_all add: delete_handler_def Let_def eq_loop_eq_conditions respond_rows_def)

lemma patch_handler_sends:
  assumes "filterKeys query \<noteq> []"
    and "object_keys (if truthy reqBody then reqBody else JObj []) = Inr setCols"
    and "setCols \<noteq> []"
    and "pool d (''UPDATE '' @ table @ '' SET '' @ setClause setCols @ '' WHERE ''
                   @ str_join '' AND '' (eq_conditions (Suc (length setCols)) (filterKeys query))
                   @ '' RETURNING *'')
           (object_values (if truthy reqBody then reqBody else JObj []) @ eq_values (filterKeys query))
           = (res, d')"
  shows "patch_handler pool d table query reqBody
           = ((case res of
                 Rejected msg \<Rightarrow> Response 500 (ErrorOf (DbFailure msg))
               | Rows rows \<Rightarrow> Response 200 (Data (JArr rows))),
              [(''UPDATE '' @ table @ '' SET '' @ setClause setCols @ '' WHERE ''
                  @ str_join '' AND '' (eq_conditions (Suc (length setCols)) (filterKeys query))
                  @ '' RETURNING *'',
                object_values (if truthy reqBody then reqBody else JObj [])
                  @ eq_values (filterKeys query), res)],
              d')"
  using assms
  by (cases res) (simp_all add: patch_handler_def Let_def eq_loop_eq_conditions respond_rows_def)

text \<open>
  C10, as the code has it. In PATCH and DELETE the conditions of the \<open>WHERE\<close> clause are
  those of the filter keys whose parsed operator is \<open>eq\<close>, numbered in order, and every
  other filter is dropped: with at least one filter key (and, for PATCH, a body with
  fields) the handler passes exactly that statement to the database. When no filter
  parses to \<open>eq\<close>, the statement is \<open>DELETE FROM t WHERE  RETURNING *\<close> or
  \<open>UPDATE t SET ... WHERE  RETURNING *\<close>, with nothing between \<open>WHERE\<close> and \<open>RETURNING\<close>.
  The handler sends the text as it is: the response is 500 when the database rejects it,
  and 200 with the rows it returns when it does not.
\<close>

theorem mutations_send_eq_conditions_only:
  "(filterKeys query \<noteq> []
      \<and> pool d (''DELETE FROM '' @ table @ '' WHERE ''
                   @ str_join '' AND '' (eq_conditions 1 (filterKeys query)) @ '' RETURNING *'')
           (eq_values (filterKeys query)) = (res, d')
    \<longrightarrow> delete_handler pool d table query
           = ((case res of
                 Rejected msg \<Rightarrow> Response 500 (ErrorOf (DbFailure msg))
               | Rows rows \<Rightarrow> Response 200 (Data (JArr rows))),
              [(''DELETE FROM '' @ table @ '' WHERE ''
                  @ str_join '' AND '' (eq_conditions 1 (filterKeys query)) @ '' RETURNING *'',
                eq_values (filterKeys query), res)],
              d'))
   \<and> (filterKeys query \<noteq> []
      \<and> object_keys (if truthy reqBody then reqBody else JObj []) = Inr setCols \<and> setCols \<noteq> []
      \<and> pool d (''UPDATE '' @ table @ '' SET '' @ setClause setCols @ '' WHERE ''
                   @ str_join '' AND '' (eq_conditions (Suc (length setCols)) (filterKeys query))
                   @ '' RETURNING *'')
           (object_values (if truthy reqBody then reqBody else JObj []) @ eq_values (filterKeys query))
           = (res, d')
    \<longrightarrow> patch_handler pool d table query reqBody
           = ((case res of
                 Rejected msg \<Rightarrow> Response 500 (ErrorOf (DbFailure msg))
               | Rows rows \<Rightarrow> Response 200 (Data (JArr rows))),
              [(''UPDATE '' @ table @ '' SET '' @ setClause setCols @ '' WHERE ''
                  @ str_join '' AND '' (eq_conditions (Suc (length setCols)) (filterKeys query))
                  @ '' RETURNING *'',
                object_values (if truthy reqBody then reqBody else JObj [])
                  @ eq_values (filterKeys query), res)],
              d'))
   \<and> (filterKeys query \<noteq> []
      \<and> list_all (\<lambda>kv. fst (parseFilter (snd kv)) \<noteq> ''eq'') (filterKeys query)
      \<and> pool d (''DELETE FROM '' @ table @ '' WHERE  RETURNING *'') [] = (res, d')
    \<longrightarrow> delete_handler pool d table query
           = ((case res of
                 Rejected msg \<Rightarrow> Response 500 (ErrorOf (DbFailure msg))
               | Rows rows \<Rightarrow> Response 200 (Data (JArr rows))),
              [(''DELETE FROM '' @ table @ '' WHERE  RETURNING *'', [], res)], d'))
   \<and> (filterKeys query \<noteq> []
      \<and> list_all (\<lambda>kv. fst (parseFilter (snd kv)) \<noteq> ''eq'') (filterKeys query)
      \<and> object_keys (if truthy reqBody then reqBody else JObj []) = Inr setCols \<and> setCols \<noteq> []
      \<and> pool d (''UPDATE '' @ table @ '' SET '' @ setClause setCols @ '' WHERE  RETURNING *'')
           (object_values (if truthy reqBody then reqBody else JObj [])) = (res, d')
    \<longrightarrow> patch_handler pool d table query reqBody
           = ((case res of
                 Rejected msg \<Rightarrow> Response 500 (ErrorOf (DbFailure msg))
               | Rows rows \<Rightarrow> Response 200 (Data (JArr rows))),
              [(''UPDATE '' @ table @ '' SET '' @ setClause setCols @ '' WHERE  RETURNING *'',
                object_values (if truthy reqBody then reqBody else JObj []), res)],
              d'))"
proof (intro conjI impI)
  assume "filterKeys query \<noteq> []
      \<and> pool d (''DELETE FROM '' @ table @ '' WHERE ''
                   @ str_join '' AND '' (eq_conditions 1 (filterKeys query)) @ '' RETURNING *'')
           (eq_values (filterKeys query)) = (res, d')"
  then show "delete_handler pool d table query
           = ((case res of
                 Rejected msg \<Rightarrow> Response 500 (ErrorOf (DbFailure msg))
               | Rows rows \<Rightarrow> Response 200 (Data (JArr rows))),
              [(''DELETE FROM '' @ table @ '' WHERE ''
                  @ str_join '' AND '' (eq_conditions 1 (filterKeys query)) @ '' RETURNING *'',
                eq_values (filterKeys query), res)],
              d')"
    by (intro delete_handler_sends) (erule conjunct1, erule conjunct2)
next
  assume "filterKeys query \<noteq> []
      \<and> object_keys (if truthy reqBody then reqBody else JObj []) = Inr setCols \<and> setCols \<noteq> []
      \<and> pool d (''UPDATE '' @ table @ '' SET '' @ setClause setCols @ '' WHERE ''
                   @ str_join '' AND '' (eq_conditions (Suc (length setCols)) (filterKeys query))
                   @ '' RETURNING *'')
           (object_values (if truthy reqBody then reqBody else JObj []) @ eq_values (filterKeys query))
           = (res, d')"
  then show "patch_handler pool d table query reqBody
           = ((case res of
                 Rejected msg \<Rightarrow> Response 500 (ErrorOf (DbFailure msg))
               | Rows rows \<Rightarrow> Response 200 (Data (JArr rows))),
              [(''UPDATE '' @ table @ '' SET '' @ setClause setCols @ '' WHERE ''
                  @ str_join '' AND '' (eq_conditions (Suc (length setCols)) (filterKeys query))
                  @ '' RETURNING *'',
                object_values (if truthy reqBody then reqBody else JObj [])
                  @ eq_values (filterKeys query), res)],
              d')"
    by (intro patch_handler_sends) auto
next
  assume a: "filterKeys query \<noteq> []
      \<and> list_all (\<lambda>kv. fst (parseFilter (snd kv)) \<noteq> ''eq'') (filterKeys query)
      \<and> pool d (''DELETE FROM '' @ table @ '' WHERE  RETURNING *'') [] = (res, d')"
  then have "eq_conditions 1 (filterKeys query) = []" and "eq_values (filterKeys query) = []"
    using no_eq_filter by blast+
  with a delete_handler_sends [of query pool d table res d']
  show "delete_handler pool d table query
           = ((case res of
                 Rejected msg \<Rightarrow> Response 500 (ErrorOf (DbFailure msg))
               | Rows rows \<Rightarrow> Response 200 (Data (JArr rows))),
              [(''DELETE FROM '' @ table @ '' WHERE  RETURNING *'', [], res)], d')"
    by simp
next
  assume a: "filterKeys query \<noteq> []
      \<and> list_all (\<lambda>kv. fst (parseFilter (snd kv)) \<noteq> ''eq'') (filterKeys query)
      \<and> object_keys (if truthy reqBody then reqBody else JObj []) = Inr setCols \<and> setCols \<noteq> []
      \<and> pool d (''UPDATE '' @ table @ '' SET '' @ setClause setCols @ '' WHERE  RETURNING *'')
           (object_values (if truthy reqBody then reqBody else JObj [])) = (res, d')"
  then have "eq_conditions (Suc (length setCols)) (filterKeys query) = []"
    and "eq_values (filterKeys query) = []"
    using no_eq_filter by blast+
  with a patch_handler_sends [of query reqBody setCols pool d table res d']
  show "patch_handler pool d table query reqBody
           = ((case res of
                 Rejected msg \<Rightarrow> Response 500 (ErrorOf (DbFailure msg))
               | Rows rows \<Rightarrow> Response 200 (Data (JArr rows))),
              [(''UPDATE '' @ table @ '' SET '' @ setClause setCols @ '' WHERE  RETURNING *'',
                object_values (if truthy reqBody then reqBody else JObj []), res)],
              d')"
    by simp
qed

theorem mutations_send_eq_conditions_only_witness:
  "delete_handler (\<lambda>d q ps. (Rows [JObj [(''id'', JStr ''7'')]], d)) () ''products''
       [(''id'', JStr ''eq.7''), (''current_stock'', JStr ''lte.5'')]
     = (Response 200 (Data (JArr [JObj [(''id'', JStr ''7'')]])),
        [(''DELETE FROM products WHERE id = $1 RETURNING *'', [JStr ''7''],
          Rows [JObj [(''id'', JStr ''7'')]])], ())
   \<and> patch_handler (\<lambda>d q ps. (Rows [JObj [(''id'', JStr ''7'')]], d)) () ''products''
       [(''id'', JStr ''eq.7''), (''current_stock'', JStr ''lte.5'')] (JObj [(''name'', JStr ''x'')])
     = (Response 200 (Data (JArr [JObj [(''id'', JStr ''7'')]])),
        [(''UPDATE products SET name = $1 WHERE id = $2 RETURNING *'', [JStr ''x'', JStr ''7''],
          Rows [JObj [(''id'', JStr ''7'')]])], ())
   \<and> delete_handler (\<lambda>d q ps. (Rejected ''syntax error'', d)) () ''products''
       [(''current_stock'', JStr ''lte.5'')]
     = (Response 500 (ErrorOf (DbFailure ''syntax error'')),
        [(''DELETE FROM products WHERE  RETURNING *'', [], Rejected ''syntax error'')], ())
   \<and> patch_handler (\<lambda>d q ps. (Rejected ''syntax error'', d)) () ''products''
       [(''current_stock'', JStr ''lte.5'')] (JObj [(''name'', JStr ''x'')])
     = (Response 500 (ErrorOf (DbFailure ''syntax error'')),
        [(''UPDATE products SET name = $1 WHERE  RETURNING *'', [JStr ''x''],
          Rejected ''syntax error'')], ())"
proof -
  let ?accept = "(\<lambda>d q ps. (Rows [JObj [(''id'', JStr ''7'')]], d)) :: unit pool"
  let ?reject = "(\<lambda>d q ps. (Rejected ''syntax error'', d)) :: unit pool"
  let ?with_eq = "[(''id'', JStr ''eq.7''), (''current_stock'', JStr ''lte.5'')]"
  let ?without_eq = "[(''current_stock'', JStr ''lte.5'')]"
  let ?body = "JObj [(''name'', JStr ''x'')]"
  have keys: "filterKeys ?with_eq \<noteq> []" "filterKeys ?without_eq \<noteq> []"
    by code_simp+
  have none_eq: "list_all (\<lambda>kv. fst (parseFilter (snd kv)) \<noteq> ''eq'') (filterKeys ?without_eq)"
    by code_simp
  have conds: "eq_conditions (Suc 0) (filterKeys ?with_eq) = [''id = $1'']"
    "eq_conditions (Suc (Suc 0)) (filterKeys ?with_eq) = [''id = $2'']"
    "eq_values (filterKeys ?with_eq) = [JStr ''7'']"
    by code_simp+
  have body: "object_keys (if truthy ?body then ?body else JObj []) = Inr [''name'']"
    "object_values (if truthy ?body then ?body else JObj []) = [JStr ''x'']"
    "setClause [''name''] = ''name = $1''"
    by code_simp+
  note accepted = mutations_send_eq_conditions_only
    [of ?with_eq ?accept "()" "''products''" "Rows [JObj [(''id'', JStr ''7'')]]" "()"
        ?body "[''name'']"]
  note rejected = mutations_send_eq_conditions_only
    [of ?without_eq ?reject "()" "''products''" "Rejected ''syntax error''" "()"
        ?body "[''name'']"]
  from accepted keys(1) have
    "delete_handler ?accept () ''products'' ?with_eq
       = (Response 200 (Data (JArr [JObj [(''id'', JStr ''7'')]])),
          [(''DELETE FROM products WHERE id = $1 RETURNING *'', [JStr ''7''],
            Rows [JObj [(''id'', JStr ''7'')]])], ())"
    by (simp add: conds)
  moreover from accepted keys(1) have
    "patch_handler ?accept () ''products'' ?with_eq ?body
       = (Response 200 (Data (JArr [JObj [(''id'', JStr ''7'')]])),
          [(''UPDATE products SET name = $1 WHERE id = $2 RETURNING *'', [JStr ''x'', JStr ''7''],
            Rows [JObj [(''id'', JStr ''7'')]])], ())"
    by (simp add: conds body)
  moreover have
    "delete_handler ?reject () ''products'' ?without_eq
       = (Response 500 (ErrorOf (DbFailure ''syntax error'')),
          [(''DELETE FROM products WHERE  RETURNING *'', [], Rejected ''syntax error'')], ())"
  proof -
    have "filterKeys ?without_eq \<noteq> []
      \<and> list_all (\<lambda>kv. fst (parseFilter (snd kv)) \<noteq> ''eq'') (filterKeys ?without_eq)
      \<and> ?reject () (''DELETE FROM '' @ ''products'' @ '' WHERE  RETURNING *'') []
          = (Rejected ''syntax error'', ())"
      using keys(2) none_eq by simp
    from rejected [THEN conjunct2, THEN conjunct2, THEN conjunct1, rule_format, OF this]
    show ?thesis by simp
  qed
  moreover have
    "patch_handler ?reject () ''products'' ?without_eq ?body
       = (Response 500 (ErrorOf (DbFailure ''syntax error'')),
          [(''UPDATE products SET name = $1 WHERE  RETURNING *'', [JStr ''x''],
            Rejected ''syntax error'')], ())"
  proof -
    have "filterKeys ?without_eq \<noteq> []
      \<and> list_all (\<lambda>kv. fst (parseFilter (snd kv)) \<noteq> ''eq'') (filterKeys ?without_eq)
      \<and> object_keys (if truthy ?body then ?body else JObj []) = Inr [''name''] \<and> [''name''] \<noteq> []
      \<and> ?reject () (''UPDATE '' @ ''products'' @ '' SET '' @ setClause [''name'']
                       @ '' WHERE  RETURNING *'')
           (object_values (if truthy ?body then ?body else JObj []))
          = (Rejected ''syntax error'', ())"
      using keys(2) none_eq body(1) by simp
    from rejected [THEN conjunct2, THEN conjunct2, THEN conjunct2, rule_format, OF this]
    show ?thesis by (simp add: body)
  qed
  ultimately show ?thesis
    by blast
qed

text \<open>
  C10 as stated fails: the only filter is not an \<open>eq\<close> filter, the table segment is
  \<open>products --\<close>, and the statement with the empty condition list is
  \<open>DELETE FROM products -- WHERE  RETURNING *\<close>. For a database that reads \<open>--\<close> as the start
  of a comment, deletes every row and returns none, the response is 200, not 500, and no
  row is left.
\<close>

theorem mutations_empty_where_accepted_counterexample:
  "delete_handler
       (\<lambda>d q ps. if q = ''DELETE FROM products -- WHERE  RETURNING *'' then (Rows [], [])
                  else (Rejected ''syntax error'', d))
       [JObj [(''id'', JNum 1)], JObj [(''id'', JNum 2)]]
       ''products --'' [(''id'', JStr ''gte.0'')]
     = (Response 200 (Data (JArr [])),
        [(''DELETE FROM products -- WHERE  RETURNING *'', [], Rows [])],
        [])"
  by code_simp

end
